theory Spec2Isabelle
  imports Main
begin

section \<open>The presence routes of the free-sleep server\<close>

text \<open>
  The embedding follows \<^verbatim>\<open>server/dist/routes/metrics/presence.js\<close> and its TypeScript
  source. The repository holds two variants of the module. Both share the storage object
  \<^verbatim>\<open>presenceData\<close>, the helper \<^verbatim>\<open>isDataStale\<close> and the \<^verbatim>\<open>POST /presence\<close> handler; they
  differ in the \<^verbatim>\<open>GET /presence\<close> handler: one answers with \<^verbatim>\<open>formatSideData\<close> objects, the
  other with an aggregate that carries the string \<^verbatim>\<open>'not available'\<close>.

  A handler is a function from the clock readings it takes, the destructured request and
  the storage object to the response it sends and the storage object it leaves behind.
\<close>

subsection \<open>Values\<close>

text \<open>
  JSON values, as they arrive in a request body and leave in a response. No handler looks
  at the value of a number it receives; the numbers it sends are millisecond timestamps,
  hence integers.
\<close>

datatype json =
    JNull
  | JBool bool
  | JNum int
  | JStr string
  | JArr "json list"
  | JObj "(string \<times> json) list"

text \<open>JavaScript's \<^verbatim>\<open>typeof\<close> on a parsed JSON value.\<close>

fun typeof :: "json \<Rightarrow> string" where
  "typeof (JBool b) = ''boolean''"
| "typeof (JNum n) = ''number''"
| "typeof (JStr s) = ''string''"
| "typeof JNull = ''object''"
| "typeof (JArr xs) = ''object''"
| "typeof (JObj kvs) = ''object''"

text \<open>Reading a property of a response object; \<open>None\<close> when the key is not there.\<close>

fun field :: "string \<Rightarrow> json \<Rightarrow> json option" where
  "field k (JObj kvs) = map_of kvs k"
| "field k v = None"

text \<open>
  The value of \<^verbatim>\<open>req.query.side\<close>: absent, one string, a repeated parameter (an array of
  strings) or a nested object of the query parser.
\<close>

datatype query =
    QUndefined
  | QStr string
  | QArr "string list"
  | QObj "(string \<times> string) list"

record response =
  status :: nat
  body :: json

subsection \<open>Storage\<close>

text \<open>
  \<^verbatim>\<open>presenceData = { left, right, lastUpdated: { left, right } }\<close>, every field \<^verbatim>\<open>null\<close>
  (\<open>None\<close>) until the first update. The nested object \<^verbatim>\<open>lastUpdated\<close> is flattened into the
  two fields \<open>lastUpdated_left\<close> and \<open>lastUpdated_right\<close>.
\<close>

record PresenceData =
  left :: "bool option"
  right :: "bool option"
  lastUpdated_left :: "int option"
  lastUpdated_right :: "int option"

definition presenceData :: PresenceData where
  "presenceData =
     \<lparr>left = None, right = None, lastUpdated_left = None, lastUpdated_right = None\<rparr>"

definition STALE_DATA_TIMEOUT_MS :: int where
  "STALE_DATA_TIMEOUT_MS = 10 * 60 * 1000"

text \<open>
  JavaScript's truthiness of a \<^verbatim>\<open>number | null\<close>: \<^verbatim>\<open>null\<close> and \<^verbatim>\<open>0\<close> are falsy, every other
  integer is truthy.
\<close>

fun truthy :: "int option \<Rightarrow> bool" where
  "truthy None = False"
| "truthy (Some t) = (t \<noteq> 0)"

text \<open>
  \<^verbatim>\<open>isDataStale(timestamp)\<close>; \<open>now\<close> is what \<^verbatim>\<open>Date.now()\<close> returns inside the call.
  \<^verbatim>\<open>if (!timestamp) return true; return Date.now() - timestamp > STALE_DATA_TIMEOUT_MS;\<close>
\<close>

fun isDataStale :: "int \<Rightarrow> int option \<Rightarrow> bool" where
  "isDataStale now timestamp =
     (if \<not> truthy timestamp then True
      else (case timestamp of
              Some t \<Rightarrow> now - t > STALE_DATA_TIMEOUT_MS
            | None \<Rightarrow> True))"

text \<open>A stored \<^verbatim>\<open>boolean | null\<close> and a stored \<^verbatim>\<open>number | null\<close> as JSON.\<close>

fun json_of_bool :: "bool option \<Rightarrow> json" where
  "json_of_bool None = JNull"
| "json_of_bool (Some b) = JBool b"

fun json_of_time :: "int option \<Rightarrow> json" where
  "json_of_time None = JNull"
| "json_of_time (Some t) = JNum t"

text \<open>\<^verbatim>\<open>present ?? false\<close>.\<close>

fun nullish_false :: "bool option \<Rightarrow> bool" where
  "nullish_false None = False"
| "nullish_false (Some b) = b"

text \<open>\<^verbatim>\<open>a || b\<close> on \<^verbatim>\<open>boolean | null\<close>: the left operand when it is truthy, else the right one.\<close>

fun js_or :: "bool option \<Rightarrow> bool option \<Rightarrow> bool option" where
  "js_or (Some True) b = Some True"
| "js_or a b = b"

text \<open>
  \<^verbatim>\<open>formatSideData(present, timestamp)\<close>. The call
  \<^verbatim>\<open>moment(timestamp).tz('America/New_York').format()\<close> belongs to a library outside the
  repository and is the parameter \<open>fmt\<close>.
\<close>

definition formatSideData :: "(int \<Rightarrow> string) \<Rightarrow> int \<Rightarrow> bool option \<Rightarrow> int option \<Rightarrow> json" where
  "formatSideData fmt now present timestamp =
     (let stale = isDataStale now timestamp
      in JObj [(''present'', JBool (nullish_false present)),
               (''lastUpdatedAt'',
                  JStr (if truthy timestamp
                        then (case timestamp of Some t \<Rightarrow> fmt t | None \<Rightarrow> ''never'')
                        else ''never'')),
               (''isStale'', JBool stale)])"

subsection \<open>POST /presence\<close>

text \<open>
  \<open>l\<close> and \<open>r\<close> are \<^verbatim>\<open>left\<close> and \<^verbatim>\<open>right\<close> of \<^verbatim>\<open>const { left, right } = req.body\<close>: \<open>None\<close> is
  \<^verbatim>\<open>undefined\<close> (the key is not in the body), \<open>Some v\<close> a supplied JSON value.
  \<open>currentTime\<close> is the one reading \<^verbatim>\<open>Date.now()\<close> of the handler. Each \<^verbatim>\<open>return\<close> of the
  source is one branch; the storage returned with a 400 is the storage as the handler had
  written it up to that \<^verbatim>\<open>return\<close>. \<open>post_presence\<close> is the \<^verbatim>\<open>try\<close> block from its second
  statement on; the destructuring before it and the \<^verbatim>\<open>catch\<close> branch are in
  \<open>post_presence_handler\<close> below.
\<close>

definition bad_request :: "string \<Rightarrow> string \<Rightarrow> response" where
  "bad_request e m = \<lparr>status = 400, body = JObj [(''error'', JStr e), (''message'', JStr m)]\<rparr>"

definition updated :: "PresenceData \<Rightarrow> response" where
  "updated pd =
     \<lparr>status = 200,
      body = JObj [(''success'', JBool True),
                   (''message'', JStr ''Presence data updated''),
                   (''data'', JObj [(''left'', json_of_bool (left pd)),
                                    (''right'', json_of_bool (right pd)),
                                    (''lastUpdated'',
                                       JObj [(''left'', json_of_time (lastUpdated_left pd)),
                                             (''right'', json_of_time (lastUpdated_right pd))])])]\<rparr>"

text \<open>
  The two blocks \<^verbatim>\<open>if (left !== undefined) { ... }\<close> and \<^verbatim>\<open>if (right !== undefined) { ... }\<close>.
  \<open>Inl\<close> is the early \<^verbatim>\<open>return res.status(400)\<close> of a value whose \<^verbatim>\<open>typeof\<close> is not
  \<^verbatim>\<open>'boolean'\<close>; \<open>Inr\<close> is the storage on leaving the block.
\<close>

fun update_left :: "int \<Rightarrow> json option \<Rightarrow> PresenceData \<Rightarrow> response + PresenceData" where
  "update_left currentTime None pd = Inr pd"
| "update_left currentTime (Some (JBool b)) pd =
     Inr (pd\<lparr>left := Some b, lastUpdated_left := Some currentTime\<rparr>)"
| "update_left currentTime (Some v) pd =
     Inl (bad_request ''Invalid value for left'' ''Value must be a boolean (true or false)'')"

fun update_right :: "int \<Rightarrow> json option \<Rightarrow> PresenceData \<Rightarrow> response + PresenceData" where
  "update_right currentTime None pd = Inr pd"
| "update_right currentTime (Some (JBool b)) pd =
     Inr (pd\<lparr>right := Some b, lastUpdated_right := Some currentTime\<rparr>)"
| "update_right currentTime (Some v) pd =
     Inl (bad_request ''Invalid value for right'' ''Value must be a boolean (true or false)'')"

definition post_presence :: "int \<Rightarrow> json option \<Rightarrow> json option \<Rightarrow> PresenceData \<Rightarrow> response \<times> PresenceData" where
  "post_presence currentTime l r pd =
     (if l = None \<and> r = None
      then (bad_request ''At least one side (left or right) must be specified''
              ''Please provide \"left\" and/or \"right\" with boolean values'', pd)
      else (case update_left currentTime l pd of
              Inl res \<Rightarrow> (res, pd)
            | Inr pd1 \<Rightarrow>
                (case update_right currentTime r pd1 of
                   Inl res \<Rightarrow> (res, pd1)
                 | Inr pd2 \<Rightarrow> (updated pd2, pd2))))"




subsection \<open>GET /presence, the variant with \<^verbatim>\<open>formatSideData\<close>\<close>

text \<open>
  \<open>nowL\<close> and \<open>nowR\<close> are the readings of \<^verbatim>\<open>Date.now()\<close> inside the calls of \<^verbatim>\<open>isDataStale\<close>
  for the left and for the right zone. The handler assigns nothing to \<^verbatim>\<open>presenceData\<close>: the
  storage it returns is the one it was given.
\<close>

definition get_presence_formatted ::
  "(int \<Rightarrow> string) \<Rightarrow> int \<Rightarrow> int \<Rightarrow> query \<Rightarrow> PresenceData \<Rightarrow> response \<times> PresenceData" where
  "get_presence_formatted fmt nowL nowR side pd =
     (if side = QStr ''left''
      then (\<lparr>status = 200, body = formatSideData fmt nowL (left pd) (lastUpdated_left pd)\<rparr>, pd)
      else if side = QStr ''right''
      then (\<lparr>status = 200, body = formatSideData fmt nowR (right pd) (lastUpdated_right pd)\<rparr>, pd)
      else (\<lparr>status = 200,
             body = JObj [(''left'', formatSideData fmt nowL (left pd) (lastUpdated_left pd)),
                          (''right'', formatSideData fmt nowR (right pd) (lastUpdated_right pd))]\<rparr>,
            pd))"

subsection \<open>GET /presence, the variant with the string \<^verbatim>\<open>'not available'\<close>\<close>

text \<open>
  \<^verbatim>\<open>presenceData.left !== null && !isDataStale(presenceData.lastUpdated.left)\<close>, and the same
  for the right zone.
\<close>

definition isLeftAvailable :: "int \<Rightarrow> PresenceData \<Rightarrow> bool" where
  "isLeftAvailable nowL pd = (left pd \<noteq> None \<and> \<not> isDataStale nowL (lastUpdated_left pd))"

definition isRightAvailable :: "int \<Rightarrow> PresenceData \<Rightarrow> bool" where
  "isRightAvailable nowR pd = (right pd \<noteq> None \<and> \<not> isDataStale nowR (lastUpdated_right pd))"

definition not_available :: "string \<Rightarrow> string \<Rightarrow> response" where
  "not_available s m =
     \<lparr>status = 200,
      body = JObj [(''side'', JStr s), (''presence'', JStr ''not available''), (''message'', JStr m)]\<rparr>"

definition side_presence :: "string \<Rightarrow> bool option \<Rightarrow> int option \<Rightarrow> response" where
  "side_presence s present timestamp =
     \<lparr>status = 200,
      body = JObj [(''side'', JStr s), (''presence'', json_of_bool present),
                   (''lastUpdated'', json_of_time timestamp)]\<rparr>"

definition overallPresence :: "int \<Rightarrow> int \<Rightarrow> PresenceData \<Rightarrow> bool option" where
  "overallPresence nowL nowR pd =
     (if isLeftAvailable nowL pd \<and> \<not> isRightAvailable nowR pd then left pd
      else if \<not> isLeftAvailable nowL pd \<and> isRightAvailable nowR pd then right pd
      else js_or (left pd) (right pd))"

definition get_presence_sentinel ::
  "int \<Rightarrow> int \<Rightarrow> query \<Rightarrow> PresenceData \<Rightarrow> response \<times> PresenceData" where
  "get_presence_sentinel nowL nowR side pd =
     (if side = QStr ''left''
      then (if \<not> isLeftAvailable nowL pd
            then (not_available ''left'' ''No recent data available for left side'', pd)
            else (side_presence ''left'' (left pd) (lastUpdated_left pd), pd))
      else if side = QStr ''right''
      then (if \<not> isRightAvailable nowR pd
            then (not_available ''right'' ''No recent data available for right side'', pd)
            else (side_presence ''right'' (right pd) (lastUpdated_right pd), pd))
      else if \<not> isLeftAvailable nowL pd \<and> \<not> isRightAvailable nowR pd
      then (not_available ''all'' ''No recent data available for either side'', pd)
      else (\<lparr>status = 200,
             body = JObj [(''side'', JStr ''all''),
                          (''presence'', json_of_bool (overallPresence nowL nowR pd)),
                          (''details'',
                             JObj [(''left'', if isLeftAvailable nowL pd
                                              then json_of_bool (left pd)
                                              else JStr ''not available''),
                                   (''right'', if isRightAvailable nowR pd
                                               then json_of_bool (right pd)
                                               else JStr ''not available'')]),
                          (''lastUpdated'',
                             JObj [(''left'', json_of_time (lastUpdated_left pd)),
                                   (''right'', json_of_time (lastUpdated_right pd))])]\<rparr>,
            pd))"

subsection \<open>Predicates and states used in the statements\<close>

text \<open>
  A request field is well typed when it is absent or its \<^verbatim>\<open>typeof\<close> is \<^verbatim>\<open>'boolean'\<close>: the
  negation of the handler's test \<^verbatim>\<open>x !== undefined && typeof x !== 'boolean'\<close>.
\<close>

definition boolean_if_supplied :: "json option \<Rightarrow> bool" where
  "boolean_if_supplied x = (case x of None \<Rightarrow> True | Some v \<Rightarrow> typeof v = ''boolean'')"

text \<open>
  Staleness and availability in the words of the specification: a zone is stale when
  \<^verbatim>\<open>now - lastUpdatedAt > STALE_TIMEOUT\<close>, a zone with no prior write is always stale, and a
  zone is available when \<^verbatim>\<open>present\<close> is not null and the zone is not stale.
\<close>

definition spec_stale :: "int \<Rightarrow> int option \<Rightarrow> bool" where
  "spec_stale now lastUpdatedAt =
     (case lastUpdatedAt of None \<Rightarrow> True | Some t \<Rightarrow> now - t > STALE_DATA_TIMEOUT_MS)"

definition spec_available :: "int \<Rightarrow> bool option \<Rightarrow> int option \<Rightarrow> bool" where
  "spec_available now present lastUpdatedAt =
     (present \<noteq> None \<and> \<not> spec_stale now lastUpdatedAt)"

text \<open>
  The left zone written less than ten minutes before the instant 1000000, the right zone
  more than ten minutes before it.
\<close>

definition ex_right_stale :: PresenceData where
  "ex_right_stale =
     \<lparr>left = Some False, right = Some True,
      lastUpdated_left = Some 900000, lastUpdated_right = Some 1000\<rparr>"

text \<open>Only the left zone ever written, at the instant 0.\<close>

definition ex_epoch :: PresenceData where
  "ex_epoch =
     \<lparr>left = Some True, right = None,
      lastUpdated_left = Some 0, lastUpdated_right = None\<rparr>"

text \<open>Both zones written less than ten minutes before the instant 1000000.\<close>

definition ex_both_fresh :: PresenceData where
  "ex_both_fresh =
     \<lparr>left = Some True, right = Some False,
      lastUpdated_left = Some 900000, lastUpdated_right = Some 800000\<rparr>"

text \<open>Only the left zone ever written, at the instant 1000.\<close>

definition ex_left_only :: PresenceData where
  "ex_left_only =
     \<lparr>left = Some True, right = None,
      lastUpdated_left = Some 1000, lastUpdated_right = None\<rparr>"

text \<open>A stand-in for the library's formatter, for closed instances.\<close>

definition ex_fmt :: "int \<Rightarrow> string" where
  "ex_fmt t = (if t = 1000 then ''1969-12-31T19:00:01-05:00'' else ''2025-01-01T00:00:00-05:00'')"

section \<open>Properties\<close>

subsection \<open>Auxiliary facts\<close>


lemma js_or_Some: "js_or (Some a) (Some b) = Some (a \<or> b)"
  by (cases a) simp_all

lemma ex_both_fresh_sel:
  "left ex_both_fresh = Some True" "right ex_both_fresh = Some False"
  "lastUpdated_left ex_both_fresh = Some 900000" "lastUpdated_right ex_both_fresh = Some 800000"
  by (simp_all add: ex_both_fresh_def)

lemma ex_left_only_sel:
  "left ex_left_only = Some True" "right ex_left_only = None"
  "lastUpdated_left ex_left_only = Some 1000" "lastUpdated_right ex_left_only = None"
  by (simp_all add: ex_left_only_def)

lemma ex_right_stale_sel:
  "left ex_right_stale = Some False" "right ex_right_stale = Some True"
  "lastUpdated_left ex_right_stale = Some 900000" "lastUpdated_right ex_right_stale = Some 1000"
  by (simp_all add: ex_right_stale_def)

lemma ex_epoch_sel:
  "left ex_epoch = Some True" "right ex_epoch = None"
  "lastUpdated_left ex_epoch = Some 0" "lastUpdated_right ex_epoch = None"
  by (simp_all add: ex_epoch_def)

lemma available_left_stored: "isLeftAvailable nowL pd \<Longrightarrow> \<exists>b. left pd = Some b"
  by (simp add: isLeftAvailable_def)

lemma available_right_stored: "isRightAvailable nowR pd \<Longrightarrow> \<exists>b. right pd = Some b"
  by (simp add: isRightAvailable_def)

lemma merged_overall:
  assumes "isLeftAvailable nowL pd \<or> isRightAvailable nowR pd"
  shows "field ''presence'' (body (fst (get_presence_sentinel nowL nowR QUndefined pd))) =
           Some (json_of_bool (overallPresence nowL nowR pd))"
  using assms by (auto simp: get_presence_sentinel_def)

lemma isDataStale_nonzero:
  "t \<noteq> 0 \<Longrightarrow> isDataStale now (Some t) = (now - t > STALE_DATA_TIMEOUT_MS)"
  by simp

lemma isDataStale_never: "isDataStale now None"
  by simp

lemma update_left_cases:
  "update_left t l pd =
     (case l of None \<Rightarrow> Inr pd
      | Some v \<Rightarrow>
         (case v of JBool b \<Rightarrow> Inr (pd\<lparr>left := Some b, lastUpdated_left := Some t\<rparr>)
          | _ \<Rightarrow> Inl (bad_request ''Invalid value for left''
                        ''Value must be a boolean (true or false)'')))"
  by (cases "(t, l, pd)" rule: update_left.cases) simp_all

lemma update_right_cases:
  "update_right t r pd =
     (case r of None \<Rightarrow> Inr pd
      | Some v \<Rightarrow>
         (case v of JBool b \<Rightarrow> Inr (pd\<lparr>right := Some b, lastUpdated_right := Some t\<rparr>)
          | _ \<Rightarrow> Inl (bad_request ''Invalid value for right''
                        ''Value must be a boolean (true or false)'')))"
  by (cases "(t, r, pd)" rule: update_right.cases) simp_all


lemma update_right_Inl:
  "(\<exists>res. update_right t r pd = Inl res) = (\<not> boolean_if_supplied r)"
  by (auto simp: update_right_cases boolean_if_supplied_def split: option.splits json.splits)

lemma update_left_Inl_status: "update_left t l pd = Inl res \<Longrightarrow> status res = 400"
  by (auto simp: update_left_cases bad_request_def split: option.splits json.splits)

lemma update_right_Inl_status: "update_right t r pd = Inl res \<Longrightarrow> status res = 400"
  by (auto simp: update_right_cases bad_request_def split: option.splits json.splits)

lemma status_updated: "status (updated pd) = 200"
  by (simp add: updated_def)

lemma post_presence_none:
  "post_presence t None None pd =
     (bad_request ''At least one side (left or right) must be specified''
        ''Please provide \"left\" and/or \"right\" with boolean values'', pd)"
  by (simp add: post_presence_def)

lemma post_presence_supplied:
  assumes "\<not> (l = None \<and> r = None)"
  shows "post_presence t l r pd =
     (case update_left t l pd of
        Inl res \<Rightarrow> (res, pd)
      | Inr pd1 \<Rightarrow>
          (case update_right t r pd1 of
             Inl res \<Rightarrow> (res, pd1)
           | Inr pd2 \<Rightarrow> (updated pd2, pd2)))"
  unfolding post_presence_def using assms by (rule if_not_P)

lemma update_left_Inr:
  assumes "update_left t l pd = Inr pd1"
  shows "(l = None \<and> pd1 = pd) \<or>
         (\<exists>b. l = Some (JBool b) \<and> pd1 = pd\<lparr>left := Some b, lastUpdated_left := Some t\<rparr>)"
  using assms by (cases "(t, l, pd)" rule: update_left.cases) auto

lemma update_right_Inr:
  assumes "update_right t r pd1 = Inr pd2"
  shows "(r = None \<and> pd2 = pd1) \<or>
         (\<exists>b. r = Some (JBool b) \<and> pd2 = pd1\<lparr>right := Some b, lastUpdated_right := Some t\<rparr>)"
  using assms by (cases "(t, r, pd1)" rule: update_right.cases) auto

lemma post_presence_ok:
  assumes "status (fst (post_presence t l r pd)) = 200"
  shows "\<exists>pd1. update_left t l pd = Inr pd1 \<and>
           update_right t r pd1 = Inr (snd (post_presence t l r pd))"
proof -
  have sup: "\<not> (l = None \<and> r = None)"
  proof
    assume "l = None \<and> r = None"
    then have "status (fst (post_presence t l r pd)) = 400"
      by (simp add: post_presence_none bad_request_def)
    with assms show False by simp
  qed
  note post = post_presence_supplied [OF sup, of t pd]
  show ?thesis
  proof (cases "update_left t l pd")
    case (Inl res)
    with assms update_left_Inl_status [OF Inl] show ?thesis
      by (simp add: post)
  next
    case left: (Inr pd1)
    show ?thesis
    proof (cases "update_right t r pd1")
      case (Inl res)
      with assms left update_right_Inl_status [OF Inl] show ?thesis
        by (simp add: post)
    next
      case (Inr pd2)
      with left show ?thesis
        by (simp add: post)
    qed
  qed
qed

lemma isDataStale_iff:
  "isDataStale now timestamp =
     (case timestamp of None \<Rightarrow> True | Some t \<Rightarrow> t = 0 \<or> now - t > 600000)"
  by (cases timestamp) (simp_all add: STALE_DATA_TIMEOUT_MS_def)

lemma isDataStale_mono:
  assumes "now \<le> now'" and "isDataStale now timestamp"
  shows "isDataStale now' timestamp"
  using assms by (cases timestamp) (auto split: if_splits)

lemma post_left_only:
  "post_presence t (Some (JBool b)) None pd =
     (updated (pd\<lparr>left := Some b, lastUpdated_left := Some t\<rparr>),
      pd\<lparr>left := Some b, lastUpdated_left := Some t\<rparr>)"
  by (simp add: post_presence_def)

lemma update_then_read_nonzero:
  assumes "t \<noteq> 0"
  shows "body (fst (get_presence_formatted fmt t nowR (QStr ''left'')
                 (snd (post_presence t (Some (JBool b)) None pd)))) =
         JObj [(''present'', JBool b), (''lastUpdatedAt'', JStr (fmt t)), (''isStale'', JBool False)]"
  using assms
  by (simp add: post_left_only get_presence_formatted_def formatSideData_def
      STALE_DATA_TIMEOUT_MS_def)

lemma formatSideData_shape:
  "formatSideData fmt now present timestamp =
     JObj [(''present'', JBool (nullish_false present)),
           (''lastUpdatedAt'',
              JStr (if truthy timestamp
                    then (case timestamp of Some t \<Rightarrow> fmt t | None \<Rightarrow> ''never'')
                    else ''never'')),
           (''isStale'', JBool (isDataStale now timestamp))]"
  by (simp add: formatSideData_def)



lemma formatSideData_present:
  "field ''present'' (formatSideData fmt now (Some b) timestamp) = Some (JBool b)"
  by (simp add: formatSideData_def)

lemma get_formatted_left:
  "fst (get_presence_formatted fmt nowL nowR (QStr ''left'') pd) =
     \<lparr>status = 200, body = formatSideData fmt nowL (left pd) (lastUpdated_left pd)\<rparr>"
  by (simp add: get_presence_formatted_def)

lemma get_formatted_right:
  "fst (get_presence_formatted fmt nowL nowR (QStr ''right'') pd) =
     \<lparr>status = 200, body = formatSideData fmt nowR (right pd) (lastUpdated_right pd)\<rparr>"
  by (simp add: get_presence_formatted_def)



lemma status_get_presence_sentinel: "status (fst (get_presence_sentinel nowL nowR side pd)) = 200"
  by (simp add: get_presence_sentinel_def not_available_def side_presence_def)

lemma status_get_presence_formatted:
  "status (fst (get_presence_formatted fmt nowL nowR side pd)) = 200"
  by (simp add: get_presence_formatted_def)

lemma get_formatted_merged:
  assumes "side \<noteq> QStr ''left''" and "side \<noteq> QStr ''right''"
  shows "fst (get_presence_formatted fmt nowL nowR side pd) =
     \<lparr>status = 200,
      body = JObj [(''left'', formatSideData fmt nowL (left pd) (lastUpdated_left pd)),
                   (''right'', formatSideData fmt nowR (right pd) (lastUpdated_right pd))]\<rparr>"
  using assms by (simp add: get_presence_formatted_def)

lemma snd_get_presence_formatted: "snd (get_presence_formatted fmt nowL nowR side pd) = pd"
  by (simp add: get_presence_formatted_def)

lemma snd_get_presence_sentinel: "snd (get_presence_sentinel nowL nowR side pd) = pd"
  by (simp add: get_presence_sentinel_def)

lemma available_cong:
  assumes "isDataStale nowL (lastUpdated_left pd) = isDataStale nowL' (lastUpdated_left pd)"
    and "isDataStale nowR (lastUpdated_right pd) = isDataStale nowR' (lastUpdated_right pd)"
  shows "isLeftAvailable nowL pd = isLeftAvailable nowL' pd"
    and "isRightAvailable nowR pd = isRightAvailable nowR' pd"
  using assms unfolding isLeftAvailable_def isRightAvailable_def by simp_all

lemma get_presence_sentinel_cong:
  assumes "isDataStale nowL (lastUpdated_left pd) = isDataStale nowL' (lastUpdated_left pd)"
    and "isDataStale nowR (lastUpdated_right pd) = isDataStale nowR' (lastUpdated_right pd)"
  shows "get_presence_sentinel nowL nowR side pd = get_presence_sentinel nowL' nowR' side pd"
  unfolding get_presence_sentinel_def overallPresence_def
  by (simp only: available_cong [OF assms])

subsection \<open>The merged view\<close>

text \<open>
  The branches of the handler with no \<^verbatim>\<open>side\<close>, by its own variables \<^verbatim>\<open>isLeftAvailable\<close> and
  \<^verbatim>\<open>isRightAvailable\<close>.
\<close>

lemma merged_view_handler_cases:
  "(\<not> isLeftAvailable nowL pd \<and> \<not> isRightAvailable nowR pd \<longrightarrow>
      fst (get_presence_sentinel nowL nowR QUndefined pd) =
        not_available ''all'' ''No recent data available for either side'') \<and>
   (isLeftAvailable nowL pd \<and> \<not> isRightAvailable nowR pd \<longrightarrow>
      (\<exists>b. left pd = Some b \<and>
         field ''presence'' (body (fst (get_presence_sentinel nowL nowR QUndefined pd)))
           = Some (JBool b))) \<and>
   (\<not> isLeftAvailable nowL pd \<and> isRightAvailable nowR pd \<longrightarrow>
      (\<exists>b. right pd = Some b \<and>
         field ''presence'' (body (fst (get_presence_sentinel nowL nowR QUndefined pd)))
           = Some (JBool b))) \<and>
   (isLeftAvailable nowL pd \<and> isRightAvailable nowR pd \<longrightarrow>
      (\<exists>a b. left pd = Some a \<and> right pd = Some b \<and>
         field ''presence'' (body (fst (get_presence_sentinel nowL nowR QUndefined pd)))
           = Some (JBool (a \<or> b))))"
proof (intro conjI impI)
  assume "\<not> isLeftAvailable nowL pd \<and> \<not> isRightAvailable nowR pd"
  then show "fst (get_presence_sentinel nowL nowR QUndefined pd) =
      not_available ''all'' ''No recent data available for either side''"
    by (simp add: get_presence_sentinel_def)
next
  assume h: "isLeftAvailable nowL pd \<and> \<not> isRightAvailable nowR pd"
  then obtain b where b: "left pd = Some b"
    using available_left_stored by blast
  from h have "overallPresence nowL nowR pd = Some b"
    by (simp add: overallPresence_def b)
  with h b show "\<exists>b. left pd = Some b \<and>
      field ''presence'' (body (fst (get_presence_sentinel nowL nowR QUndefined pd)))
        = Some (JBool b)"
    by (simp add: merged_overall)
next
  assume h: "\<not> isLeftAvailable nowL pd \<and> isRightAvailable nowR pd"
  then obtain b where b: "right pd = Some b"
    using available_right_stored by blast
  from h have "overallPresence nowL nowR pd = Some b"
    by (simp add: overallPresence_def b)
  with h b show "\<exists>b. right pd = Some b \<and>
      field ''presence'' (body (fst (get_presence_sentinel nowL nowR QUndefined pd)))
        = Some (JBool b)"
    by (simp add: merged_overall)
next
  assume h: "isLeftAvailable nowL pd \<and> isRightAvailable nowR pd"
  then obtain a b where ab: "left pd = Some a" "right pd = Some b"
    using available_left_stored available_right_stored by blast
  from h have "overallPresence nowL nowR pd = Some (a \<or> b)"
    by (simp add: overallPresence_def ab js_or_Some)
  with h ab show "\<exists>a b. left pd = Some a \<and> right pd = Some b \<and>
      field ''presence'' (body (fst (get_presence_sentinel nowL nowR QUndefined pd)))
        = Some (JBool (a \<or> b))"
    by (simp add: merged_overall)
qed

text \<open>
  For a timestamp other than the number 0 the handler's classification is the one the
  specification words.
\<close>

lemma isDataStale_spec:
  assumes "timestamp \<noteq> Some 0"
  shows "isDataStale now timestamp = spec_stale now timestamp"
  using assms by (cases timestamp) (simp_all add: spec_stale_def)

lemma isLeftAvailable_spec:
  assumes "lastUpdated_left pd \<noteq> Some 0"
  shows "isLeftAvailable nowL pd = spec_available nowL (left pd) (lastUpdated_left pd)"
  unfolding isLeftAvailable_def spec_available_def
  by (simp only: isDataStale_spec [OF assms])

lemma isRightAvailable_spec:
  assumes "lastUpdated_right pd \<noteq> Some 0"
  shows "isRightAvailable nowR pd = spec_available nowR (right pd) (lastUpdated_right pd)"
  unfolding isRightAvailable_def spec_available_def
  by (simp only: isDataStale_spec [OF assms])

lemma merged_none_available:
  assumes "\<not> isLeftAvailable nowL pd" and "\<not> isRightAvailable nowR pd"
  shows "field ''presence'' (body (fst (get_presence_sentinel nowL nowR QUndefined pd)))
           = Some (JStr ''not available'')"
  using assms by (simp add: get_presence_sentinel_def not_available_def)

text \<open>
  Claim C1. Availability is that of the specification: \<^verbatim>\<open>present\<close> is not null and the zone
  is not stale, where stale means never written or \<^verbatim>\<open>now - lastUpdatedAt > STALE_TIMEOUT\<close>.
  For every storage whose timestamps are not the number 0 and every pair of clock readings
  the merged view of the variant with \<^verbatim>\<open>'not available'\<close> follows the four cases: no zone
  available gives \<^verbatim>\<open>'not available'\<close>, one zone available gives that zone's stored boolean,
  both available give the disjunction of the two stored booleans. For a zone written at the
  instant 0 the policy is broken: after \<^verbatim>\<open>POST { left: true }\<close> at the instant 0 the left
  zone is available at the instant 1000 and the right zone is not, yet the merged view is
  \<^verbatim>\<open>'not available'\<close> and not \<^verbatim>\<open>true\<close>.
\<close>

theorem merged_view_policy_spec:
  "(lastUpdated_left pd \<noteq> Some 0 \<and> lastUpdated_right pd \<noteq> Some 0 \<longrightarrow>
      (\<not> spec_available nowL (left pd) (lastUpdated_left pd) \<and>
       \<not> spec_available nowR (right pd) (lastUpdated_right pd) \<longrightarrow>
         field ''presence'' (body (fst (get_presence_sentinel nowL nowR QUndefined pd)))
           = Some (JStr ''not available'')) \<and>
      (spec_available nowL (left pd) (lastUpdated_left pd) \<and>
       \<not> spec_available nowR (right pd) (lastUpdated_right pd) \<longrightarrow>
         (\<exists>b. left pd = Some b \<and>
            field ''presence'' (body (fst (get_presence_sentinel nowL nowR QUndefined pd)))
              = Some (JBool b))) \<and>
      (\<not> spec_available nowL (left pd) (lastUpdated_left pd) \<and>
       spec_available nowR (right pd) (lastUpdated_right pd) \<longrightarrow>
         (\<exists>b. right pd = Some b \<and>
            field ''presence'' (body (fst (get_presence_sentinel nowL nowR QUndefined pd)))
              = Some (JBool b))) \<and>
      (spec_available nowL (left pd) (lastUpdated_left pd) \<and>
       spec_available nowR (right pd) (lastUpdated_right pd) \<longrightarrow>
         (\<exists>a b. left pd = Some a \<and> right pd = Some b \<and>
            field ''presence'' (body (fst (get_presence_sentinel nowL nowR QUndefined pd)))
              = Some (JBool (a \<or> b))))) \<and>
   snd (post_presence 0 (Some (JBool True)) None presenceData) = ex_epoch \<and>
   left ex_epoch = Some True \<and>
   spec_available 1000 (left ex_epoch) (lastUpdated_left ex_epoch) \<and>
   \<not> spec_available 1000 (right ex_epoch) (lastUpdated_right ex_epoch) \<and>
   field ''presence'' (body (fst (get_presence_sentinel 1000 1000 QUndefined ex_epoch)))
     = Some (JStr ''not available'')"
proof -
  have policy: "(\<not> spec_available nowL (left pd) (lastUpdated_left pd) \<and>
       \<not> spec_available nowR (right pd) (lastUpdated_right pd) \<longrightarrow>
         field ''presence'' (body (fst (get_presence_sentinel nowL nowR QUndefined pd)))
           = Some (JStr ''not available'')) \<and>
      (spec_available nowL (left pd) (lastUpdated_left pd) \<and>
       \<not> spec_available nowR (right pd) (lastUpdated_right pd) \<longrightarrow>
         (\<exists>b. left pd = Some b \<and>
            field ''presence'' (body (fst (get_presence_sentinel nowL nowR QUndefined pd)))
              = Some (JBool b))) \<and>
      (\<not> spec_available nowL (left pd) (lastUpdated_left pd) \<and>
       spec_available nowR (right pd) (lastUpdated_right pd) \<longrightarrow>
         (\<exists>b. right pd = Some b \<and>
            field ''presence'' (body (fst (get_presence_sentinel nowL nowR QUndefined pd)))
              = Some (JBool b))) \<and>
      (spec_available nowL (left pd) (lastUpdated_left pd) \<and>
       spec_available nowR (right pd) (lastUpdated_right pd) \<longrightarrow>
         (\<exists>a b. left pd = Some a \<and> right pd = Some b \<and>
            field ''presence'' (body (fst (get_presence_sentinel nowL nowR QUndefined pd)))
              = Some (JBool (a \<or> b))))"
    if nz: "lastUpdated_left pd \<noteq> Some 0 \<and> lastUpdated_right pd \<noteq> Some 0"
  proof -
    from nz have l: "spec_available nowL (left pd) (lastUpdated_left pd) = isLeftAvailable nowL pd"
      by (simp add: isLeftAvailable_spec)
    from nz have r: "spec_available nowR (right pd) (lastUpdated_right pd) = isRightAvailable nowR pd"
      by (simp add: isRightAvailable_spec)
    show ?thesis
      unfolding l r
      using merged_view_handler_cases [of nowL pd nowR] merged_none_available [of nowL pd nowR]
      by blast
  qed
  have 1: "snd (post_presence 0 (Some (JBool True)) None presenceData) = ex_epoch"
    by (simp add: post_left_only presenceData_def ex_epoch_def)
  have 2: "left ex_epoch = Some True"
    by (simp add: ex_epoch_sel)
  have 3: "spec_available 1000 (left ex_epoch) (lastUpdated_left ex_epoch)"
    by (simp add: spec_available_def spec_stale_def ex_epoch_sel STALE_DATA_TIMEOUT_MS_def)
  have 4: "\<not> spec_available 1000 (right ex_epoch) (lastUpdated_right ex_epoch)"
    by (simp add: spec_available_def ex_epoch_sel)
  have 5: "field ''presence'' (body (fst (get_presence_sentinel 1000 1000 QUndefined ex_epoch)))
     = Some (JStr ''not available'')"
    by (rule merged_none_available)
      (simp_all add: isLeftAvailable_def isRightAvailable_def ex_epoch_sel)
  from policy 1 2 3 4 5 show ?thesis
    by blast
qed

theorem merged_view_policy_spec_witness:
  "lastUpdated_left ex_right_stale \<noteq> Some 0 \<and> lastUpdated_right ex_right_stale \<noteq> Some 0 \<and>
   spec_available 1000000 (left ex_right_stale) (lastUpdated_left ex_right_stale) \<and>
   \<not> spec_available 1000000 (right ex_right_stale) (lastUpdated_right ex_right_stale) \<and>
   right ex_right_stale = Some True \<and>
   field ''presence'' (body (fst (get_presence_sentinel 1000000 1000000 QUndefined ex_right_stale)))
     = Some (JBool False) \<and>
   spec_available 1000000 (left ex_both_fresh) (lastUpdated_left ex_both_fresh) \<and>
   spec_available 1000000 (right ex_both_fresh) (lastUpdated_right ex_both_fresh) \<and>
   field ''presence'' (body (fst (get_presence_sentinel 1000000 1000000 QUndefined ex_both_fresh)))
     = Some (JBool True) \<and>
   \<not> spec_available 1000000 (left ex_left_only) (lastUpdated_left ex_left_only) \<and>
   \<not> spec_available 1000000 (right ex_left_only) (lastUpdated_right ex_left_only) \<and>
   field ''presence'' (body (fst (get_presence_sentinel 1000000 1000000 QUndefined ex_left_only)))
     = Some (JStr ''not available'')"
  using merged_view_policy_spec [of ex_right_stale 1000000 1000000]
    merged_view_policy_spec [of ex_both_fresh 1000000 1000000]
    merged_view_policy_spec [of ex_left_only 1000000 1000000]
  by (auto simp: spec_available_def spec_stale_def STALE_DATA_TIMEOUT_MS_def
      ex_right_stale_sel ex_both_fresh_sel ex_left_only_sel)

subsection \<open>Staleness\<close>

text \<open>
  Claim C2. Staleness is not stored but computed on every read, and a zone that was never
  written (\<^verbatim>\<open>null\<close> timestamp) is stale on every read: those parts hold
  (\<open>isDataStale_never\<close>, \<open>isDataStale_nonzero\<close>). The claimed equivalence with
  \<^verbatim>\<open>now - lastUpdatedAt > STALE_TIMEOUT\<close> fails for a zone written at the instant 0:
  \<^verbatim>\<open>!timestamp\<close> is true for the number 0 as it is for \<^verbatim>\<open>null\<close>, so the zone is classified
  stale although only 1000 ms have passed since its write.
\<close>

theorem isDataStale_epoch:
  "STALE_DATA_TIMEOUT_MS = 600000 \<and> isDataStale 1000 (Some 0) \<and>
   \<not> (1000 - 0 > STALE_DATA_TIMEOUT_MS)"
  by (simp add: STALE_DATA_TIMEOUT_MS_def)

subsection \<open>Validation of an update\<close>










subsection \<open>The view of one zone\<close>




subsection \<open>What an update writes\<close>

text \<open>
  Claim C5. After an update that answers 200, a side supplied with the boolean \<open>b\<close> has
  \<open>b\<close> stored and the handler's clock reading as its timestamp, and a side that was not
  supplied keeps the boolean and the timestamp it had. These are all the cases: in an
  update that answers 200 each side is either absent or a boolean.
\<close>

theorem post_presence_frame:
  assumes "status (fst (post_presence t l r pd)) = 200"
  shows "(\<forall>b. l = Some (JBool b) \<longrightarrow>
            left (snd (post_presence t l r pd)) = Some b \<and>
            lastUpdated_left (snd (post_presence t l r pd)) = Some t) \<and>
         (l = None \<longrightarrow>
            left (snd (post_presence t l r pd)) = left pd \<and>
            lastUpdated_left (snd (post_presence t l r pd)) = lastUpdated_left pd) \<and>
         (\<forall>b. r = Some (JBool b) \<longrightarrow>
            right (snd (post_presence t l r pd)) = Some b \<and>
            lastUpdated_right (snd (post_presence t l r pd)) = Some t) \<and>
         (r = None \<longrightarrow>
            right (snd (post_presence t l r pd)) = right pd \<and>
            lastUpdated_right (snd (post_presence t l r pd)) = lastUpdated_right pd) \<and>
         (l = None \<or> (\<exists>b. l = Some (JBool b))) \<and>
         (r = None \<or> (\<exists>b. r = Some (JBool b)))"
proof -
  from post_presence_ok [OF assms] obtain pd1 where
    1: "update_left t l pd = Inr pd1" and
    2: "update_right t r pd1 = Inr (snd (post_presence t l r pd))"
    by blast
  from update_left_Inr [OF 1] show ?thesis
  proof (elim disjE conjE exE)
    assume l: "l = None" "pd1 = pd"
    from update_right_Inr [OF 2] show ?thesis
    proof (elim disjE conjE exE)
      assume "r = None" "snd (post_presence t l r pd) = pd1"
      with l show ?thesis by simp
    next
      fix b assume "r = Some (JBool b)"
        "snd (post_presence t l r pd) = pd1\<lparr>right := Some b, lastUpdated_right := Some t\<rparr>"
      with l show ?thesis by simp
    qed
  next
    fix a assume l: "l = Some (JBool a)" "pd1 = pd\<lparr>left := Some a, lastUpdated_left := Some t\<rparr>"
    from update_right_Inr [OF 2] show ?thesis
    proof (elim disjE conjE exE)
      assume "r = None" "snd (post_presence t l r pd) = pd1"
      with l show ?thesis by simp
    next
      fix b assume "r = Some (JBool b)"
        "snd (post_presence t l r pd) = pd1\<lparr>right := Some b, lastUpdated_right := Some t\<rparr>"
      with l show ?thesis by simp
    qed
  qed
qed

theorem post_presence_frame_witness:
  "status (fst (post_presence 1000000 (Some (JBool False)) None ex_both_fresh)) = 200 \<and>
   left (snd (post_presence 1000000 (Some (JBool False)) None ex_both_fresh)) = Some False \<and>
   lastUpdated_left (snd (post_presence 1000000 (Some (JBool False)) None ex_both_fresh))
     = Some 1000000 \<and>
   right (snd (post_presence 1000000 (Some (JBool False)) None ex_both_fresh)) = Some False \<and>
   lastUpdated_right (snd (post_presence 1000000 (Some (JBool False)) None ex_both_fresh))
     = Some 800000"
proof -
  have ok: "status (fst (post_presence 1000000 (Some (JBool False)) None ex_both_fresh)) = 200"
    by (simp add: post_presence_def status_updated)
  from post_presence_frame [OF ok] ok show ?thesis
    by (auto simp: ex_both_fresh_sel)
qed

subsection \<open>An update followed by a read\<close>

text \<open>
  Claim C6. For an update of the left zone at an instant other than 0, the read of the left
  zone at the same instant reports the boolean written and \<^verbatim>\<open>isStale: false\<close>
  (\<open>update_then_read_nonzero\<close>). At the instant 0 it does not: the timestamp written is
  the number 0, which \<^verbatim>\<open>isDataStale\<close> and \<^verbatim>\<open>formatSideData\<close> take for a missing one, and the
  read reports \<^verbatim>\<open>isStale: true\<close> and \<^verbatim>\<open>lastUpdatedAt: 'never'\<close>.
\<close>

theorem update_then_read_epoch:
  "status (fst (post_presence 0 (Some (JBool True)) None presenceData)) = 200 \<and>
   body (fst (get_presence_formatted fmt 0 0 (QStr ''left'')
           (snd (post_presence 0 (Some (JBool True)) None presenceData)))) =
     JObj [(''present'', JBool True), (''lastUpdatedAt'', JStr ''never''),
           (''isStale'', JBool True)]"
  by (simp add: post_left_only status_updated get_presence_formatted_def formatSideData_def)

subsection \<open>An unrecognised side\<close>

text \<open>
  Claim C7. In both variants, a \<^verbatim>\<open>side\<close> that is neither the string \<^verbatim>\<open>'left'\<close> nor the string
  \<^verbatim>\<open>'right'\<close> gets the answer of a request with no \<^verbatim>\<open>side\<close>, and every read, whatever its
  \<^verbatim>\<open>side\<close>, answers 200.
\<close>

theorem unrecognized_side_merged:
  assumes "side \<noteq> QStr ''left''" and "side \<noteq> QStr ''right''"
  shows "get_presence_sentinel nowL nowR side pd = get_presence_sentinel nowL nowR QUndefined pd \<and>
         get_presence_formatted fmt nowL nowR side pd =
           get_presence_formatted fmt nowL nowR QUndefined pd \<and>
         status (fst (get_presence_sentinel nowL nowR side pd)) = 200 \<and>
         status (fst (get_presence_formatted fmt nowL nowR side pd)) = 200 \<and>
         status (fst (get_presence_sentinel nowL nowR any pd)) = 200 \<and>
         status (fst (get_presence_formatted fmt nowL nowR any pd)) = 200"
proof -
  have "get_presence_sentinel nowL nowR side pd = get_presence_sentinel nowL nowR QUndefined pd"
    using assms by (simp add: get_presence_sentinel_def)
  moreover have "get_presence_formatted fmt nowL nowR side pd =
      get_presence_formatted fmt nowL nowR QUndefined pd"
    using assms by (simp add: get_presence_formatted_def)
  ultimately show ?thesis
    by (simp add: status_get_presence_sentinel status_get_presence_formatted)
qed

theorem unrecognized_side_merged_witness:
  "QStr ''middle'' \<noteq> QStr ''left'' \<and> QStr ''middle'' \<noteq> QStr ''right'' \<and>
   get_presence_sentinel 2000 2000 (QStr ''middle'') ex_left_only =
     get_presence_sentinel 2000 2000 QUndefined ex_left_only \<and>
   field ''side'' (body (fst (get_presence_sentinel 2000 2000 (QStr ''middle'') ex_left_only)))
     = Some (JStr ''all'') \<and>
   get_presence_formatted ex_fmt 2000 2000 (QArr [''left'']) ex_left_only =
     get_presence_formatted ex_fmt 2000 2000 QUndefined ex_left_only"
  using unrecognized_side_merged [of "QStr ''middle''" 2000 2000 ex_left_only ex_fmt]
    unrecognized_side_merged [of "QArr [''left'']" 2000 2000 ex_left_only ex_fmt]
  by (simp add: get_presence_sentinel_def isLeftAvailable_def isRightAvailable_def
      ex_left_only_sel STALE_DATA_TIMEOUT_MS_def)

subsection \<open>Reads leave the storage alone\<close>

text \<open>
  Claim C8, as stated, fails on the variant with \<^verbatim>\<open>'not available'\<close>: with no write in
  between, the merged view of a storage whose left zone was written at the instant 1000
  has \<^verbatim>\<open>presence: true\<close> at the instant 2000 and \<^verbatim>\<open>presence: 'not available'\<close> at the instant
  1000000. The field that changed is \<^verbatim>\<open>presence\<close>; the responses have no field \<^verbatim>\<open>isStale\<close>.
\<close>

theorem read_across_instants_sentinel_counterexample:
  "snd (get_presence_sentinel 2000 2000 QUndefined ex_left_only) = ex_left_only \<and>
   field ''presence'' (body (fst (get_presence_sentinel 2000 2000 QUndefined ex_left_only)))
     = Some (JBool True) \<and>
   field ''presence'' (body (fst (get_presence_sentinel 1000000 1000000 QUndefined ex_left_only)))
     = Some (JStr ''not available'') \<and>
   field ''isStale'' (body (fst (get_presence_sentinel 2000 2000 QUndefined ex_left_only)))
     = None \<and>
   field ''isStale'' (body (fst (get_presence_sentinel 1000000 1000000 QUndefined ex_left_only)))
     = None"
  by (simp add: get_presence_sentinel_def overallPresence_def isLeftAvailable_def
      isRightAvailable_def ex_left_only_sel STALE_DATA_TIMEOUT_MS_def not_available_def)

text \<open>
  Claim C8, amended. A read never changes the storage, in either variant, so a second read
  with the same clock readings and no write in between gives the response of the first.
  Across instants a response changes only through the staleness of the zones, and a zone
  that is stale stays stale at every later instant. In the variant with \<^verbatim>\<open>formatSideData\<close>
  the values of \<^verbatim>\<open>present\<close> and \<^verbatim>\<open>lastUpdatedAt\<close> are the same at all instants and \<^verbatim>\<open>isStale\<close> is
  the only field that may change. In the variant with \<^verbatim>\<open>'not available'\<close> two reads give the
  same response whenever both zones are classified the same at the two instants; a zone
  that turns stale changes \<^verbatim>\<open>presence\<close>, as the instance above shows.
\<close>

theorem read_is_pure:
  "snd (get_presence_formatted fmt nowL nowR side pd) = pd \<and>
   snd (get_presence_sentinel nowL nowR side pd) = pd \<and>
   fst (get_presence_formatted fmt nowL nowR side
          (snd (get_presence_formatted fmt nowL nowR side pd))) =
     fst (get_presence_formatted fmt nowL nowR side pd) \<and>
   fst (get_presence_sentinel nowL nowR side
          (snd (get_presence_sentinel nowL nowR side pd))) =
     fst (get_presence_sentinel nowL nowR side pd) \<and>
   (\<exists>pl sl pr sr. \<forall>nL nR.
      fst (get_presence_formatted fmt nL nR (QStr ''left'') pd) =
        \<lparr>status = 200,
         body = JObj [(''present'', pl), (''lastUpdatedAt'', sl),
                      (''isStale'', JBool (isDataStale nL (lastUpdated_left pd)))]\<rparr> \<and>
      fst (get_presence_formatted fmt nL nR (QStr ''right'') pd) =
        \<lparr>status = 200,
         body = JObj [(''present'', pr), (''lastUpdatedAt'', sr),
                      (''isStale'', JBool (isDataStale nR (lastUpdated_right pd)))]\<rparr> \<and>
      fst (get_presence_formatted fmt nL nR QUndefined pd) =
        \<lparr>status = 200,
         body = JObj [(''left'',
                         JObj [(''present'', pl), (''lastUpdatedAt'', sl),
                               (''isStale'', JBool (isDataStale nL (lastUpdated_left pd)))]),
                      (''right'',
                         JObj [(''present'', pr), (''lastUpdatedAt'', sr),
                               (''isStale'', JBool (isDataStale nR (lastUpdated_right pd)))])]\<rparr>) \<and>
   (isDataStale nowL (lastUpdated_left pd) = isDataStale nowL' (lastUpdated_left pd) \<and>
    isDataStale nowR (lastUpdated_right pd) = isDataStale nowR' (lastUpdated_right pd) \<longrightarrow>
      get_presence_sentinel nowL nowR side pd = get_presence_sentinel nowL' nowR' side pd) \<and>
   (nowL \<le> nowL' \<and> isDataStale nowL timestamp \<longrightarrow> isDataStale nowL' timestamp)"
proof (intro conjI)
  show "snd (get_presence_formatted fmt nowL nowR side pd) = pd"
    by (rule snd_get_presence_formatted)
  show "snd (get_presence_sentinel nowL nowR side pd) = pd"
    by (rule snd_get_presence_sentinel)
  show "fst (get_presence_formatted fmt nowL nowR side
          (snd (get_presence_formatted fmt nowL nowR side pd))) =
     fst (get_presence_formatted fmt nowL nowR side pd)"
    by (simp only: snd_get_presence_formatted)
  show "fst (get_presence_sentinel nowL nowR side
          (snd (get_presence_sentinel nowL nowR side pd))) =
     fst (get_presence_sentinel nowL nowR side pd)"
    by (simp only: snd_get_presence_sentinel)
  show "isDataStale nowL (lastUpdated_left pd) = isDataStale nowL' (lastUpdated_left pd) \<and>
    isDataStale nowR (lastUpdated_right pd) = isDataStale nowR' (lastUpdated_right pd) \<longrightarrow>
      get_presence_sentinel nowL nowR side pd = get_presence_sentinel nowL' nowR' side pd"
    using get_presence_sentinel_cong by blast
  show "nowL \<le> nowL' \<and> isDataStale nowL timestamp \<longrightarrow> isDataStale nowL' timestamp"
    using isDataStale_mono by blast
  let ?sl = "JStr (if truthy (lastUpdated_left pd)
               then (case lastUpdated_left pd of Some t \<Rightarrow> fmt t | None \<Rightarrow> ''never'')
               else ''never'')"
  let ?sr = "JStr (if truthy (lastUpdated_right pd)
               then (case lastUpdated_right pd of Some t \<Rightarrow> fmt t | None \<Rightarrow> ''never'')
               else ''never'')"
  have "\<forall>nL nR.
      fst (get_presence_formatted fmt nL nR (QStr ''left'') pd) =
        \<lparr>status = 200,
         body = JObj [(''present'', JBool (nullish_false (left pd))), (''lastUpdatedAt'', ?sl),
                      (''isStale'', JBool (isDataStale nL (lastUpdated_left pd)))]\<rparr> \<and>
      fst (get_presence_formatted fmt nL nR (QStr ''right'') pd) =
        \<lparr>status = 200,
         body = JObj [(''present'', JBool (nullish_false (right pd))), (''lastUpdatedAt'', ?sr),
                      (''isStale'', JBool (isDataStale nR (lastUpdated_right pd)))]\<rparr> \<and>
      fst (get_presence_formatted fmt nL nR QUndefined pd) =
        \<lparr>status = 200,
         body = JObj [(''left'',
                         JObj [(''present'', JBool (nullish_false (left pd))), (''lastUpdatedAt'', ?sl),
                               (''isStale'', JBool (isDataStale nL (lastUpdated_left pd)))]),
                      (''right'',
                         JObj [(''present'', JBool (nullish_false (right pd))), (''lastUpdatedAt'', ?sr),
                               (''isStale'', JBool (isDataStale nR (lastUpdated_right pd)))])]\<rparr>"
    by (simp only: get_formatted_left get_formatted_right get_formatted_merged
        formatSideData_shape query.distinct not_False_eq_True simp_thms)
  then show "\<exists>pl sl pr sr. \<forall>nL nR.
      fst (get_presence_formatted fmt nL nR (QStr ''left'') pd) =
        \<lparr>status = 200,
         body = JObj [(''present'', pl), (''lastUpdatedAt'', sl),
                      (''isStale'', JBool (isDataStale nL (lastUpdated_left pd)))]\<rparr> \<and>
      fst (get_presence_formatted fmt nL nR (QStr ''right'') pd) =
        \<lparr>status = 200,
         body = JObj [(''present'', pr), (''lastUpdatedAt'', sr),
                      (''isStale'', JBool (isDataStale nR (lastUpdated_right pd)))]\<rparr> \<and>
      fst (get_presence_formatted fmt nL nR QUndefined pd) =
        \<lparr>status = 200,
         body = JObj [(''left'',
                         JObj [(''present'', pl), (''lastUpdatedAt'', sl),
                               (''isStale'', JBool (isDataStale nL (lastUpdated_left pd)))]),
                      (''right'',
                         JObj [(''present'', pr), (''lastUpdatedAt'', sr),
                               (''isStale'', JBool (isDataStale nR (lastUpdated_right pd)))])]\<rparr>"
    by blast
qed

theorem read_is_pure_witness:
  "isDataStale 2000 (lastUpdated_left ex_left_only) =
     isDataStale 3000 (lastUpdated_left ex_left_only) \<and>
   isDataStale 2000 (lastUpdated_right ex_left_only) =
     isDataStale 3000 (lastUpdated_right ex_left_only) \<and>
   get_presence_sentinel 2000 2000 QUndefined ex_left_only =
     get_presence_sentinel 3000 3000 QUndefined ex_left_only \<and>
   (2000::int) \<le> 3000 \<and> isDataStale 2000 (Some (-700000)) \<and>
   isDataStale 3000 (Some (-700000)) \<and>
   snd (get_presence_formatted ex_fmt 2000 2000 QUndefined ex_left_only) = ex_left_only"
  using read_is_pure [of ex_fmt 2000 2000 QUndefined ex_left_only 3000 3000 "Some (-700000)"]
  by (simp add: ex_left_only_sel STALE_DATA_TIMEOUT_MS_def)

subsection \<open>An update that fails on the right side\<close>

text \<open>
  Claim C9. An update with a boolean for the left side and a supplied value that is not a
  boolean for the right side answers 400, and the storage it leaves has the left zone
  written: the boolean supplied and the handler's clock reading. The right zone is as
  before.
\<close>

theorem post_presence_partial_write:
  assumes "typeof v \<noteq> ''boolean''"
  shows "status (fst (post_presence t (Some (JBool b)) (Some v) pd)) = 400 \<and>
         left (snd (post_presence t (Some (JBool b)) (Some v) pd)) = Some b \<and>
         lastUpdated_left (snd (post_presence t (Some (JBool b)) (Some v) pd)) = Some t \<and>
         right (snd (post_presence t (Some (JBool b)) (Some v) pd)) = right pd \<and>
         lastUpdated_right (snd (post_presence t (Some (JBool b)) (Some v) pd)) = lastUpdated_right pd"
proof -
  from assms have "\<not> boolean_if_supplied (Some v)"
    by (simp add: boolean_if_supplied_def)
  then obtain res where res: "update_right t (Some v) (pd\<lparr>left := Some b, lastUpdated_left := Some t\<rparr>) = Inl res"
    using update_right_Inl by blast
  then have "post_presence t (Some (JBool b)) (Some v) pd =
      (res, pd\<lparr>left := Some b, lastUpdated_left := Some t\<rparr>)"
    by (simp add: post_presence_def)
  with update_right_Inl_status [OF res] show ?thesis
    by simp
qed

theorem post_presence_partial_write_witness:
  "typeof (JStr ''yes'') \<noteq> ''boolean'' \<and>
   status (fst (post_presence 7000 (Some (JBool True)) (Some (JStr ''yes'')) presenceData)) = 400 \<and>
   left presenceData = None \<and> lastUpdated_left presenceData = None \<and>
   left (snd (post_presence 7000 (Some (JBool True)) (Some (JStr ''yes'')) presenceData)) = Some True \<and>
   lastUpdated_left (snd (post_presence 7000 (Some (JBool True)) (Some (JStr ''yes'')) presenceData)) = Some 7000"
  using post_presence_partial_write [of "JStr ''yes''" 7000 True presenceData]
  by (simp add: presenceData_def)

subsection \<open>One clock reading for both zones\<close>

text \<open>
  Claim C10. An update with booleans for both sides answers 200 and leaves both zones with
  the same timestamp, the one clock reading of the handler.
\<close>

theorem post_presence_both_same_instant:
  "status (fst (post_presence t (Some (JBool a)) (Some (JBool b)) pd)) = 200 \<and>
   lastUpdated_left (snd (post_presence t (Some (JBool a)) (Some (JBool b)) pd)) = Some t \<and>
   lastUpdated_right (snd (post_presence t (Some (JBool a)) (Some (JBool b)) pd)) = Some t \<and>
   lastUpdated_left (snd (post_presence t (Some (JBool a)) (Some (JBool b)) pd)) =
     lastUpdated_right (snd (post_presence t (Some (JBool a)) (Some (JBool b)) pd))"
  by (simp add: post_presence_def status_updated)

end
